theory Spec2Isabelle
  imports Complex_Main
begin

section \<open>Values\<close>

text \<open>
  A JavaScript number is a real or \<open>NaN\<close>; rounding and the infinities of IEEE doubles are
  not part of the embedding. \<open>NaN\<close> is what arithmetic on \<open>undefined\<close> yields, and
  \<open>undefined\<close> is what a read past the end of a typed array yields.
\<close>

datatype num = Fin real | NaN

fun nadd :: "num \<Rightarrow> num \<Rightarrow> num" where
  "nadd (Fin a) (Fin b) = Fin (a + b)"
| "nadd _ _ = NaN"

fun nmul :: "num \<Rightarrow> num \<Rightarrow> num" where
  "nmul (Fin a) (Fin b) = Fin (a * b)"
| "nmul _ _ = NaN"

text \<open>
  Modelled from the spec: the tensor library (tensor.js) is not among the sources. A tensor
  has its dimensions and a flat typed array of numbers; \<open>new Tensor(dims)\<close> allocates the
  product of the dimensions, filled with zeros; \<open>length\<close> is the number of entries;
  \<open>copy(other, offset)\<close> writes the entries of \<open>other\<close> from \<open>offset\<close> on; \<open>clone\<close>
  is a copy of the value.
\<close>

record tensor =
  dims :: "nat list"
  data :: "num list"

definition new_Tensor :: "nat list \<Rightarrow> tensor" where
  "new_Tensor ds = \<lparr>dims = ds, data = replicate (prod_list ds) (Fin 0)\<rparr>"

definition tlength :: "tensor \<Rightarrow> nat" where
  "tlength t = length (data t)"

text \<open>A read of a typed array used as an operand: past the end it is \<open>undefined\<close>, hence \<open>NaN\<close>.\<close>

definition rd :: "num list \<Rightarrow> nat \<Rightarrow> num" where
  "rd d i = (if i < length d then d ! i else NaN)"

text \<open>A write to a typed array past its end is dropped, as \<open>list_update\<close> does.\<close>

definition wr :: "num list \<Rightarrow> nat \<Rightarrow> num \<Rightarrow> num list" where
  "wr d i v = d[i := v]"

definition copy :: "tensor \<Rightarrow> tensor \<Rightarrow> nat \<Rightarrow> tensor" where
  "copy t other offset =
     t\<lparr>data := map (\<lambda>k. if offset \<le> k \<and> k < offset + tlength other
                           then data other ! (k - offset) else data t ! k)
                  [0..<length (data t)]\<rparr>"

definition clone :: "tensor \<Rightarrow> tensor" where
  "clone t = t"

type_synonym addr = nat

text \<open>
  A value is a number, a tensor, \<open>undefined\<close>, an array of values, or a reference to a graph
  node. \<open>graph.isNode\<close> is true of the references only.
\<close>

datatype val = Num num | Tens tensor | Undefined | Arr "val list" | Ref addr

fun isNode :: "val \<Rightarrow> bool" where
  "isNode (Ref a) = True"
| "isNode _ = False"

fun isArray :: "val \<Rightarrow> bool" where
  "isArray (Arr xs) = True"
| "isArray _ = False"

text \<open>
  \<open>AssertionError\<close> is a failed \<open>assert\<close>, \<open>TypeError\<close> a property read on \<open>undefined\<close>.
  \<open>Unmodelled\<close> is not an error of the program: it marks an operand outside the documented
  operand types of a formula (an array where a scalar is expected, a scalar where a tensor
  is expected), where JavaScript's coercions decide the outcome and the embedding stops.
\<close>

datatype error = AssertionError | TypeError | Unmodelled

section \<open>Graph nodes and the store\<close>

datatype kind = ScalarK | TensorK

datatype parents = Leaf | UnaryP addr | BinaryP addr addr | NaryP "addr list"

fun parent_addrs :: "parents \<Rightarrow> addr list" where
  "parent_addrs Leaf = []"
| "parent_addrs (UnaryP p) = [p]"
| "parent_addrs (BinaryP p q) = [p, q]"
| "parent_addrs (NaryP ps) = ps"

record node =
  n_x :: val
  n_dx :: val
  n_name :: string
  n_kind :: kind
  n_parents :: parents
  n_arg :: "val option"
  n_args :: "val list option"

type_synonym heap = "addr \<Rightarrow> node"

text \<open>
  The store: the fields of every node, the \<open>backward\<close> method each node got from its
  prototype (with \<open>this\<close> bound to the node's address), and the number of nodes created so
  far, which is the address of the next one. Addresses are given out in creation order.
\<close>

record state =
  heap :: heap
  meth :: "addr \<Rightarrow> heap \<Rightarrow> error + heap"
  tape_len :: nat

text \<open>
  Modelled from the spec: the node constructors (graph.js) are not among the sources. A
  node keeps its forward value, a gradient accumulator of the same shape that starts at
  the additive identity (0, or a zero tensor), its name and its parents.
\<close>

fun zero_like :: "val \<Rightarrow> val" where
  "zero_like (Tens t) = Tens (new_Tensor (dims t))"
| "zero_like v = Num (Fin 0)"

definition mk_node :: "kind \<Rightarrow> val \<Rightarrow> string \<Rightarrow> parents \<Rightarrow> node" where
  "mk_node k v nm ps =
     \<lparr>n_x = v, n_dx = zero_like v, n_name = nm, n_kind = k, n_parents = ps,
      n_arg = None, n_args = None\<rparr>"

definition ScalarNode :: "val \<Rightarrow> string \<Rightarrow> node" where
  "ScalarNode v nm = mk_node ScalarK v nm Leaf"

definition TensorNode :: "val \<Rightarrow> string \<Rightarrow> node" where
  "TensorNode v nm = mk_node TensorK v nm Leaf"

definition UnaryNode :: "kind \<Rightarrow> val \<Rightarrow> addr \<Rightarrow> string \<Rightarrow> node" where
  "UnaryNode k v p nm = mk_node k v nm (UnaryP p)"

definition BinaryNode :: "kind \<Rightarrow> val \<Rightarrow> addr \<Rightarrow> addr \<Rightarrow> string \<Rightarrow> node" where
  "BinaryNode k v p q nm = mk_node k v nm (BinaryP p q)"

definition NaryNode :: "kind \<Rightarrow> val \<Rightarrow> addr list \<Rightarrow> string \<Rightarrow> node" where
  "NaryNode k v ps nm = mk_node k v nm (NaryP ps)"

text \<open>\<open>new C(...)\<close>: the node takes the next address and its class's \<open>backward\<close>.\<close>

definition new_node :: "node \<Rightarrow> (addr \<Rightarrow> heap \<Rightarrow> error + heap) \<Rightarrow> state \<Rightarrow> val \<times> state" where
  "new_node n bw st =
     (let a = tape_len st
      in (Ref a, st\<lparr>heap := (heap st)(a := n), meth := (meth st)(a := bw a),
                     tape_len := Suc a\<rparr>))"

text \<open>The fields \<open>parent\<close>, \<open>parent1\<close> and \<open>parent2\<close> of a node; a field it has not is \<open>undefined\<close>.\<close>

definition parent :: "node \<Rightarrow> val" where
  "parent n = (case n_parents n of UnaryP p \<Rightarrow> Ref p | _ \<Rightarrow> Undefined)"

definition parent1 :: "node \<Rightarrow> val" where
  "parent1 n = (case n_parents n of BinaryP p q \<Rightarrow> Ref p | _ \<Rightarrow> Undefined)"

definition parent2 :: "node \<Rightarrow> val" where
  "parent2 n = (case n_parents n of BinaryP p q \<Rightarrow> Ref q | _ \<Rightarrow> Undefined)"

section \<open>The interface of src/ad/index.js\<close>

definition no_backward :: "addr \<Rightarrow> heap \<Rightarrow> error + heap" where
  "no_backward this h = Inr h"

definition liftScalar :: "val \<Rightarrow> string \<Rightarrow> state \<Rightarrow> val \<times> state" where
  "liftScalar v nm st = new_node (ScalarNode v nm) no_backward st"

definition liftTensor :: "val \<Rightarrow> string \<Rightarrow> state \<Rightarrow> val \<times> state" where
  "liftTensor v nm st = new_node (TensorNode v nm) no_backward st"

definition doLift :: "val \<Rightarrow> string \<Rightarrow> state \<Rightarrow> val \<times> state" where
  "doLift v nm st = (case v of Tens t \<Rightarrow> liftTensor v nm st | _ \<Rightarrow> liftScalar v nm st)"

definition lift :: "val \<Rightarrow> string \<Rightarrow> state \<Rightarrow> val \<times> state" where
  "lift v nm st = (if isNode v then (v, st) else doLift v nm st)"


definition value_of :: "heap \<Rightarrow> val \<Rightarrow> val" where
  "value_of h v = (case v of Ref a \<Rightarrow> n_x (h a) | _ \<Rightarrow> v)"

text \<open>
  \<open>derivative\<close> is the property read \<open>x.dx\<close>: the accumulator of a node; \<open>undefined\<close> on a
  number, a tensor or an array, which have no such property; a \<open>TypeError\<close> on \<open>undefined\<close>.
\<close>

definition derivative :: "val \<Rightarrow> state \<Rightarrow> error + val" where
  "derivative v st =
     (case v of Ref a \<Rightarrow> Inr (n_dx (heap st a))
      | Undefined \<Rightarrow> Inl TypeError
      | _ \<Rightarrow> Inr Undefined)"

section \<open>The function factories of src/ad/func.js\<close>

datatype otype = NumberT | TensorT | OtherT

definition checkOutputType :: "otype \<Rightarrow> error + unit" where
  "checkOutputType T = (if T = TensorT \<or> T = NumberT then Inr () else Inl AssertionError)"

definition BaseNode :: "otype \<Rightarrow> kind" where
  "BaseNode T = (if T = TensorT then TensorK else ScalarK)"

record unary_opts =
  u_OutputType :: otype
  u_name :: string
  u_forward :: "val \<Rightarrow> error + val"
  u_backward :: "addr \<Rightarrow> val \<Rightarrow> heap \<Rightarrow> error + heap"

record binary_opts =
  b_OutputType :: otype
  b_name :: string
  b_forward :: "val \<Rightarrow> val \<Rightarrow> error + val"
  backward1 :: "addr \<Rightarrow> val \<Rightarrow> val \<Rightarrow> heap \<Rightarrow> error + heap"
  backward2 :: "addr \<Rightarrow> val \<Rightarrow> val \<Rightarrow> heap \<Rightarrow> error + heap"

record fn_opts =
  f_OutputType :: otype
  f_name :: string
  f_forward :: "val list \<Rightarrow> heap \<Rightarrow> error + val"
  f_backward :: "addr \<Rightarrow> val list \<Rightarrow> heap \<Rightarrow> error + heap"
  getParents :: "val list \<Rightarrow> addr list"

text \<open>
  A registered operation is called with its arguments and the store; it fails, or returns
  a value and the store it leaves.
\<close>

type_synonym 'a call = "'a \<Rightarrow> state \<Rightarrow> error + val \<times> state"

subsection \<open>newUnaryFunction\<close>

text \<open>\<open>FnNode.prototype.backward\<close>: \<open>backward.call(this, this.parent)\<close>.\<close>

definition FnNode_backward :: "unary_opts \<Rightarrow> addr \<Rightarrow> heap \<Rightarrow> error + heap" where
  "FnNode_backward opts this h = u_backward opts this (parent (h this)) h"

text \<open>The function \<open>newUnaryFunction\<close> returns: a node argument is unwrapped by \<open>x.x\<close>.\<close>

definition unary_call :: "unary_opts \<Rightarrow> val call" where
  "unary_call opts x st =
     (case x of
        Ref p \<Rightarrow>
          (case u_forward opts (n_x (heap st p)) of
             Inl e \<Rightarrow> Inl e
           | Inr r \<Rightarrow>
               Inr (new_node (UnaryNode (BaseNode (u_OutputType opts)) r p (u_name opts))
                      (FnNode_backward opts) st))
      | _ \<Rightarrow> (case u_forward opts x of Inl e \<Rightarrow> Inl e | Inr r \<Rightarrow> Inr (r, st)))"

definition newUnaryFunction :: "unary_opts \<Rightarrow> error + val call" where
  "newUnaryFunction opts =
     (case checkOutputType (u_OutputType opts) of
        Inl e \<Rightarrow> Inl e
      | Inr _ \<Rightarrow> Inr (unary_call opts))"

subsection \<open>newBinaryFunction\<close>

text \<open>
  The three node classes: both arguments lifted (\<open>Node11\<close>), the first only (\<open>Node10\<close>, the
  raw second argument kept in \<open>arg\<close>), the second only (\<open>Node01\<close>, the raw first argument
  kept in \<open>arg\<close>). \<open>Node11\<close> runs \<open>backward1\<close> and then \<open>backward2\<close>, each with the raw \<open>x\<close>
  of the other parent.
\<close>

definition Node11_backward :: "binary_opts \<Rightarrow> addr \<Rightarrow> heap \<Rightarrow> error + heap" where
  "Node11_backward opts this h =
     (case backward1 opts this (parent1 (h this)) (value_of h (parent2 (h this))) h of
        Inl e \<Rightarrow> Inl e
      | Inr h1 \<Rightarrow> backward2 opts this (value_of h1 (parent1 (h1 this))) (parent2 (h1 this)) h1)"

definition the_arg :: "node \<Rightarrow> val" where
  "the_arg n = (case n_arg n of Some v \<Rightarrow> v | None \<Rightarrow> Undefined)"

definition Node10_backward :: "binary_opts \<Rightarrow> addr \<Rightarrow> heap \<Rightarrow> error + heap" where
  "Node10_backward opts this h = backward1 opts this (parent (h this)) (the_arg (h this)) h"

definition Node01_backward :: "binary_opts \<Rightarrow> addr \<Rightarrow> heap \<Rightarrow> error + heap" where
  "Node01_backward opts this h = backward2 opts this (the_arg (h this)) (parent (h this)) h"

text \<open>The function \<open>newBinaryFunction\<close> returns, on the pair of its arguments.\<close>

definition binary_call :: "binary_opts \<Rightarrow> (val \<times> val) call" where
  "binary_call opts xy st =
     (let x = fst xy; y = snd xy; k = BaseNode (b_OutputType opts); nm = b_name opts
      in case (x, y) of
           (Ref p, Ref q) \<Rightarrow>
             (case b_forward opts (n_x (heap st p)) (n_x (heap st q)) of
                Inl e \<Rightarrow> Inl e
              | Inr r \<Rightarrow> Inr (new_node (BinaryNode k r p q nm) (Node11_backward opts) st))
         | (Ref p, _) \<Rightarrow>
             (case b_forward opts (n_x (heap st p)) y of
                Inl e \<Rightarrow> Inl e
              | Inr r \<Rightarrow>
                  Inr (new_node ((UnaryNode k r p nm)\<lparr>n_arg := Some y\<rparr>)
                         (Node10_backward opts) st))
         | (_, Ref q) \<Rightarrow>
             (case b_forward opts x (n_x (heap st q)) of
                Inl e \<Rightarrow> Inl e
              | Inr r \<Rightarrow>
                  Inr (new_node ((UnaryNode k r q nm)\<lparr>n_arg := Some x\<rparr>)
                         (Node01_backward opts) st))
         | _ \<Rightarrow> (case b_forward opts x y of Inl e \<Rightarrow> Inl e | Inr r \<Rightarrow> Inr (r, st)))"

definition newBinaryFunction :: "binary_opts \<Rightarrow> error + (val \<times> val) call" where
  "newBinaryFunction opts =
     (case checkOutputType (b_OutputType opts) of
        Inl e \<Rightarrow> Inl e
      | Inr _ \<Rightarrow> Inr (binary_call opts))"

subsection \<open>newFunction\<close>

text \<open>\<open>backward.apply(this, this.args)\<close>; without the field the formula gets no argument.\<close>

definition FnNode_args_backward :: "fn_opts \<Rightarrow> addr \<Rightarrow> heap \<Rightarrow> error + heap" where
  "FnNode_args_backward opts this h =
     f_backward opts this (case n_args (h this) of Some as \<Rightarrow> as | None \<Rightarrow> []) h"

text \<open>
  The function \<open>newFunction\<close> returns, on the list \<open>arguments\<close>: the forward formula and
  \<open>getParents\<close> both get the arguments as passed, and the number of parents picks the node
  class.
\<close>

definition fn_call :: "fn_opts \<Rightarrow> (val list) call" where
  "fn_call opts arguments st =
     (case f_forward opts arguments (heap st) of
        Inl e \<Rightarrow> Inl e
      | Inr output \<Rightarrow>
          (let ps = getParents opts arguments; n = length ps;
               k = BaseNode (f_OutputType opts); nm = f_name opts;
               bw = FnNode_args_backward opts
           in if n = 0 then Inr (output, st)
              else if n > 2 then
                Inr (new_node ((NaryNode k output ps nm)\<lparr>n_args := Some arguments\<rparr>) bw st)
              else if n = 2 then
                Inr (new_node ((BinaryNode k output (ps ! 0) (ps ! 1) nm)
                                 \<lparr>n_args := Some arguments\<rparr>) bw st)
              else
                Inr (new_node ((UnaryNode k output (ps ! 0) nm)\<lparr>n_args := Some arguments\<rparr>)
                       bw st)))"

definition newFunction :: "fn_opts \<Rightarrow> error + (val list) call" where
  "newFunction opts =
     (case checkOutputType (f_OutputType opts) of
        Inl e \<Rightarrow> Inl e
      | Inr _ \<Rightarrow> Inr (fn_call opts))"

subsection \<open>naryGetParents\<close>

text \<open>The \<open>args\<close> of a variadic formula: the entries of a single array, or the arguments.\<close>

definition nary_args :: "val list \<Rightarrow> val list" where
  "nary_args arguments = (case arguments of [Arr xs] \<Rightarrow> xs | _ \<Rightarrow> arguments)"

text \<open>\<open>while (n--)\<close>: the body runs with \<open>n - 1\<close>, down to 0.\<close>

fun ngp_loop :: "val list \<Rightarrow> nat \<Rightarrow> addr list \<Rightarrow> addr list" where
  "ngp_loop args 0 p = p"
| "ngp_loop args (Suc n) p =
     (case args ! n of Ref a \<Rightarrow> ngp_loop args n (p @ [a]) | _ \<Rightarrow> ngp_loop args n p)"

definition naryGetParents :: "val list \<Rightarrow> addr list" where
  "naryGetParents arguments = (let args = nary_args arguments in ngp_loop args (length args) [])"

section \<open>The built-in functions of the library\<close>

text \<open>
  The operators \<open>+\<close> and \<open>*\<close> on numbers and \<open>undefined\<close> (which counts as \<open>NaN\<close>). An
  array, tensor or node operand goes through JavaScript's string coercion, which the
  embedding does not follow.
\<close>

fun to_number :: "val \<Rightarrow> num option" where
  "to_number (Num n) = Some n"
| "to_number Undefined = Some NaN"
| "to_number _ = None"

definition js_plus :: "val \<Rightarrow> val \<Rightarrow> error + val" where
  "js_plus a b =
     (case (to_number a, to_number b) of
        (Some m, Some n) \<Rightarrow> Inr (Num (nadd m n))
      | _ \<Rightarrow> Inl Unmodelled)"

definition js_times :: "val \<Rightarrow> val \<Rightarrow> error + val" where
  "js_times a b =
     (case (to_number a, to_number b) of
        (Some m, Some n) \<Rightarrow> Inr (Num (nmul m n))
      | _ \<Rightarrow> Inl Unmodelled)"

text \<open>\<open>p.dx += v\<close> on a scalar accumulator.\<close>

definition add_to_dx :: "addr \<Rightarrow> val \<Rightarrow> heap \<Rightarrow> error + heap" where
  "add_to_dx p v h =
     (case js_plus (n_dx (h p)) v of
        Inl e \<Rightarrow> Inl e
      | Inr s \<Rightarrow> Inr (h(p := (h p)\<lparr>n_dx := s\<rparr>)))"

text \<open>\<open>p.dx.data[k] += v\<close> on a tensor accumulator.\<close>

definition add_to_dx_at :: "addr \<Rightarrow> nat \<Rightarrow> num \<Rightarrow> heap \<Rightarrow> error + heap" where
  "add_to_dx_at p k v h =
     (case n_dx (h p) of
        Tens d \<Rightarrow> Inr (h(p := (h p)\<lparr>n_dx := Tens (d\<lparr>data := wr (data d) k (nadd (rd (data d) k) v)\<rparr>)\<rparr>))
      | _ \<Rightarrow> Inl Unmodelled)"

text \<open>The entry \<open>t.data[k]\<close> as a value: \<open>undefined\<close> past the end.\<close>

definition entry :: "tensor \<Rightarrow> nat \<Rightarrow> val" where
  "entry t k = (if k < length (data t) then Num (data t ! k) else Undefined)"

fun foldE :: "('a \<Rightarrow> 's \<Rightarrow> error + 's) \<Rightarrow> 'a list \<Rightarrow> 's \<Rightarrow> error + 's" where
  "foldE f [] s = Inr s"
| "foldE f (a # as) s = (case f a s of Inl e \<Rightarrow> Inl e | Inr s' \<Rightarrow> foldE f as s')"

subsection \<open>Scalar multiplication (makeFunctions)\<close>

text \<open>
  Modelled from the spec: the derivative table (derivatives.js) is not among the sources.
  Each formula of a binary operation gets the node whose \<open>dx\<close> it writes and the raw value
  of the sibling argument, and adds its contribution; for the product, the contribution
  to one factor is the output's \<open>dx\<close> times the other factor.
\<close>

definition mul_backward1 :: "addr \<Rightarrow> val \<Rightarrow> val \<Rightarrow> heap \<Rightarrow> error + heap" where
  "mul_backward1 this x y h =
     (case x of
        Ref p \<Rightarrow> (case js_times (n_dx (h this)) y of Inl e \<Rightarrow> Inl e | Inr c \<Rightarrow> add_to_dx p c h)
      | _ \<Rightarrow> Inl Unmodelled)"

definition mul_backward2 :: "addr \<Rightarrow> val \<Rightarrow> val \<Rightarrow> heap \<Rightarrow> error + heap" where
  "mul_backward2 this x y h =
     (case y of
        Ref q \<Rightarrow> (case js_times (n_dx (h this)) x of Inl e \<Rightarrow> Inl e | Inr c \<Rightarrow> add_to_dx q c h)
      | _ \<Rightarrow> Inl Unmodelled)"

definition scalar_mul_opts :: binary_opts where
  "scalar_mul_opts =
     \<lparr>b_OutputType = NumberT, b_name = ''scalar.mul'', b_forward = js_times,
      backward1 = mul_backward1, backward2 = mul_backward2\<rparr>"

subsection \<open>scalar.sum\<close>

fun sum_loop :: "val list \<Rightarrow> heap \<Rightarrow> nat \<Rightarrow> val \<Rightarrow> error + val" where
  "sum_loop args h 0 thesum = Inr thesum"
| "sum_loop args h (Suc n) thesum =
     (case js_plus thesum (value_of h (args ! n)) of
        Inl e \<Rightarrow> Inl e
      | Inr s \<Rightarrow> sum_loop args h n s)"

definition sum_forward :: "val list \<Rightarrow> heap \<Rightarrow> error + val" where
  "sum_forward arguments h =
     (let args = nary_args arguments in sum_loop args h (length args) (Num (Fin 0)))"

fun sum_bw_loop :: "addr \<Rightarrow> val list \<Rightarrow> nat \<Rightarrow> heap \<Rightarrow> error + heap" where
  "sum_bw_loop this args 0 h = Inr h"
| "sum_bw_loop this args (Suc n) h =
     (case args ! n of
        Ref p \<Rightarrow>
          (case add_to_dx p (n_dx (h this)) h of
             Inl e \<Rightarrow> Inl e
           | Inr h' \<Rightarrow> sum_bw_loop this args n h')
      | _ \<Rightarrow> sum_bw_loop this args n h)"

definition sum_backward :: "addr \<Rightarrow> val list \<Rightarrow> heap \<Rightarrow> error + heap" where
  "sum_backward this arguments h =
     (let args = nary_args arguments in sum_bw_loop this args (length args) h)"

definition scalar_sum_opts :: fn_opts where
  "scalar_sum_opts =
     \<lparr>f_OutputType = NumberT, f_name = ''scalar.sum'', f_forward = sum_forward,
      f_backward = sum_backward, getParents = naryGetParents\<rparr>"

subsection \<open>scalarsToTensor\<close>

text \<open>A store into the typed array converts the value to a number.\<close>

fun s2t_loop :: "val list \<Rightarrow> heap \<Rightarrow> nat \<Rightarrow> tensor \<Rightarrow> error + tensor" where
  "s2t_loop args h 0 t = Inr t"
| "s2t_loop args h (Suc n) t =
     (case to_number (value_of h (args ! n)) of
        Some v \<Rightarrow> s2t_loop args h n (t\<lparr>data := wr (data t) n v\<rparr>)
      | None \<Rightarrow> Inl Unmodelled)"

definition scalarsToTensor_forward :: "val list \<Rightarrow> heap \<Rightarrow> error + val" where
  "scalarsToTensor_forward arguments h =
     (let args = nary_args arguments; n = length args
      in case s2t_loop args h n (new_Tensor [n]) of Inl e \<Rightarrow> Inl e | Inr t \<Rightarrow> Inr (Tens t))"

fun s2t_bw_loop :: "addr \<Rightarrow> val list \<Rightarrow> nat \<Rightarrow> heap \<Rightarrow> error + heap" where
  "s2t_bw_loop this args 0 h = Inr h"
| "s2t_bw_loop this args (Suc n) h =
     (case args ! n of
        Ref p \<Rightarrow>
          (case n_dx (h this) of
             Tens g \<Rightarrow>
               (case add_to_dx p (entry g n) h of
                  Inl e \<Rightarrow> Inl e
                | Inr h' \<Rightarrow> s2t_bw_loop this args n h')
           | _ \<Rightarrow> Inl Unmodelled)
      | _ \<Rightarrow> s2t_bw_loop this args n h)"

definition scalarsToTensor_backward :: "addr \<Rightarrow> val list \<Rightarrow> heap \<Rightarrow> error + heap" where
  "scalarsToTensor_backward this arguments h =
     (let args = nary_args arguments in s2t_bw_loop this args (length args) h)"

definition scalarsToTensor_opts :: fn_opts where
  "scalarsToTensor_opts =
     \<lparr>f_OutputType = TensorT, f_name = ''scalarsToTensor'',
      f_forward = scalarsToTensor_forward, f_backward = scalarsToTensor_backward,
      getParents = naryGetParents\<rparr>"

subsection \<open>tensor.concat\<close>

text \<open>The first loop of the forward formula adds up the lengths, last argument first.\<close>

fun concat_size :: "val list \<Rightarrow> heap \<Rightarrow> nat \<Rightarrow> nat \<Rightarrow> error + nat" where
  "concat_size args h 0 sz = Inr sz"
| "concat_size args h (Suc n) sz =
     (case value_of h (args ! n) of
        Tens tn \<Rightarrow> concat_size args h n (sz + tlength tn)
      | _ \<Rightarrow> Inl Unmodelled)"

text \<open>The second loop copies the arguments in order, the offset \<open>i\<close> running forward.\<close>

fun concat_copy :: "val list \<Rightarrow> heap \<Rightarrow> nat \<Rightarrow> tensor \<Rightarrow> error + tensor" where
  "concat_copy [] h i t = Inr t"
| "concat_copy (arg # rest) h i t =
     (case value_of h arg of
        Tens tn \<Rightarrow> concat_copy rest h (i + tlength tn) (copy t tn i)
      | _ \<Rightarrow> Inl Unmodelled)"

definition concat_forward :: "val list \<Rightarrow> heap \<Rightarrow> error + val" where
  "concat_forward arguments h =
     (let args = nary_args arguments
      in case concat_size args h (length args) 0 of
           Inl e \<Rightarrow> Inl e
         | Inr sz \<Rightarrow>
             (case concat_copy args h 0 (new_Tensor [sz]) of
                Inl e \<Rightarrow> Inl e
              | Inr t \<Rightarrow> Inr (Tens t)))"

text \<open>
  The backward formula: the outer loop takes the arguments last first, with the offset
  \<open>i\<close> starting at 0; the inner loop adds \<open>this.dx.data[i + len]\<close> into \<open>tn.dx.data[len]\<close>.
\<close>

fun concat_bw_inner :: "addr \<Rightarrow> addr \<Rightarrow> nat \<Rightarrow> nat \<Rightarrow> heap \<Rightarrow> error + heap" where
  "concat_bw_inner this p i 0 h = Inr h"
| "concat_bw_inner this p i (Suc len) h =
     (case n_dx (h this) of
        Tens g \<Rightarrow>
          (case add_to_dx_at p len (rd (data g) (i + len)) h of
             Inl e \<Rightarrow> Inl e
           | Inr h' \<Rightarrow> concat_bw_inner this p i len h')
      | _ \<Rightarrow> Inl Unmodelled)"

fun concat_bw_loop :: "addr \<Rightarrow> val list \<Rightarrow> nat \<Rightarrow> nat \<Rightarrow> heap \<Rightarrow> error + heap" where
  "concat_bw_loop this args 0 i h = Inr h"
| "concat_bw_loop this args (Suc n) i h =
     (case args ! n of
        Ref p \<Rightarrow>
          (case n_dx (h p) of
             Tens d \<Rightarrow>
               (case concat_bw_inner this p i (tlength d) h of
                  Inl e \<Rightarrow> Inl e
                | Inr h' \<Rightarrow>
                    (case n_dx (h' p) of
                       Tens d' \<Rightarrow> concat_bw_loop this args n (i + tlength d') h'
                     | _ \<Rightarrow> Inl Unmodelled))
           | _ \<Rightarrow> Inl Unmodelled)
      | Tens t \<Rightarrow> concat_bw_loop this args n (i + tlength t) h
      | _ \<Rightarrow> Inl Unmodelled)"

definition concat_backward :: "addr \<Rightarrow> val list \<Rightarrow> heap \<Rightarrow> error + heap" where
  "concat_backward this arguments h =
     (let args = nary_args arguments in concat_bw_loop this args (length args) 0 h)"

definition tensor_concat_opts :: fn_opts where
  "tensor_concat_opts =
     \<lparr>f_OutputType = TensorT, f_name = ''tensor.concat'', f_forward = concat_forward,
      f_backward = concat_backward, getParents = naryGetParents\<rparr>"

subsection \<open>mvmuladd (src/nn/networks/linear.js)\<close>

text \<open>A formal parameter without an argument is \<open>undefined\<close>.\<close>

definition arg_at :: "val list \<Rightarrow> nat \<Rightarrow> val" where
  "arg_at as i = (if i < length as then as ! i else Undefined)"

text \<open>\<open>A.dims[1]\<close>: \<open>undefined\<close> (\<open>None\<close>) when the tensor has fewer than two dimensions.\<close>

definition dim1 :: "tensor \<Rightarrow> nat option" where
  "dim1 A = (if 1 < length (dims A) then Some (dims A ! 1) else None)"

definition mv_row :: "tensor \<Rightarrow> tensor \<Rightarrow> nat \<Rightarrow> nat \<Rightarrow> tensor \<Rightarrow> tensor" where
  "mv_row A x w r y =
     fold (\<lambda>c y. y\<lparr>data := wr (data y) r
                      (nadd (rd (data y) r) (nmul (rd (data A) (r * w + c)) (rd (data x) c)))\<rparr>)
       [0..<w] y"

definition mvmuladd_forward :: "val list \<Rightarrow> heap \<Rightarrow> error + val" where
  "mvmuladd_forward arguments h =
     (case (value_of h (arg_at arguments 0), value_of h (arg_at arguments 1),
            value_of h (arg_at arguments 2)) of
        (Tens A, Tens x, Tens b) \<Rightarrow>
          (let w = tlength x; hh = tlength b
           in if Some w \<noteq> dim1 A then Inl AssertionError
              else Inr (Tens (fold (mv_row A x w) [0..<hh] (clone b))))
      | _ \<Rightarrow> Inl Unmodelled)"

definition mv_bw_col ::
  "val \<Rightarrow> val \<Rightarrow> tensor \<Rightarrow> tensor \<Rightarrow> nat \<Rightarrow> num \<Rightarrow> nat \<Rightarrow> heap \<Rightarrow> error + heap" where
  "mv_bw_col A x Ap xp off thisdx c h =
     (case (case x of Ref q \<Rightarrow> add_to_dx_at q c (nmul (rd (data Ap) (off + c)) thisdx) h
                    | _ \<Rightarrow> Inr h) of
        Inl e \<Rightarrow> Inl e
      | Inr h' \<Rightarrow>
          (case A of Ref p \<Rightarrow> add_to_dx_at p (off + c) (nmul (rd (data xp) c) thisdx) h'
                   | _ \<Rightarrow> Inr h'))"

definition mv_bw_row ::
  "addr \<Rightarrow> val \<Rightarrow> val \<Rightarrow> val \<Rightarrow> tensor \<Rightarrow> tensor \<Rightarrow> nat \<Rightarrow> nat \<Rightarrow> heap \<Rightarrow> error + heap" where
  "mv_bw_row this A x b Ap xp w r h =
     (case n_dx (h this) of
        Tens g \<Rightarrow>
          (let off = r * w; thisdx = rd (data g) r
           in case (case b of Ref q \<Rightarrow> add_to_dx_at q r thisdx h | _ \<Rightarrow> Inr h) of
                Inl e \<Rightarrow> Inl e
              | Inr h' \<Rightarrow> foldE (mv_bw_col A x Ap xp off thisdx) [0..<w] h')
      | _ \<Rightarrow> Inl Unmodelled)"

definition mvmuladd_backward :: "addr \<Rightarrow> val list \<Rightarrow> heap \<Rightarrow> error + heap" where
  "mvmuladd_backward this arguments h =
     (let A = arg_at arguments 0; x = arg_at arguments 1; b = arg_at arguments 2
      in case (value_of h A, value_of h x, value_of h b) of
           (Tens Ap, Tens xp, Tens bp) \<Rightarrow>
             foldE (mv_bw_row this A x b Ap xp (tlength xp)) [0..<tlength bp] h
         | _ \<Rightarrow> Inl Unmodelled)"

definition mvmuladd_opts :: fn_opts where
  "mvmuladd_opts =
     \<lparr>f_OutputType = TensorT, f_name = ''mvmuladd'', f_forward = mvmuladd_forward,
      f_backward = mvmuladd_backward, getParents = naryGetParents\<rparr>"

section \<open>The backward pass\<close>








text \<open>The store before any node is created.\<close>

definition empty_node :: node where
  "empty_node = mk_node ScalarK Undefined [] Leaf"

definition init_state :: state where
  "init_state = \<lparr>heap = (\<lambda>a. empty_node), meth = no_backward, tape_len = 0\<rparr>"

subsection \<open>Scalar floor (makeFunctions)\<close>

text \<open>The forward formula \<open>Math.floor(x)\<close>, on a number or \<open>undefined\<close>.\<close>

definition floor_forward :: "val \<Rightarrow> error + val" where
  "floor_forward x =
     (case to_number x of
        Some (Fin a) \<Rightarrow> Inr (Num (Fin (of_int \<lfloor>a\<rfloor>)))
      | Some NaN \<Rightarrow> Inr (Num NaN)
      | None \<Rightarrow> Inl Unmodelled)"

text \<open>
  Modelled from the spec: the derivative table (derivatives.js) is not among the sources.
  Floor, ceil and round contribute nothing to the parent's \<open>dx\<close>.
\<close>

definition floor_backward :: "addr \<Rightarrow> val \<Rightarrow> heap \<Rightarrow> error + heap" where
  "floor_backward this x h = Inr h"

definition scalar_floor_opts :: unary_opts where
  "scalar_floor_opts =
     \<lparr>u_OutputType = NumberT, u_name = ''scalar.floor'', u_forward = floor_forward,
      u_backward = floor_backward\<rparr>"

section \<open>Observations and example programs\<close>

text \<open>The node a call returned, read from the store the call left.\<close>

definition result_node :: "error + val \<times> state \<Rightarrow> node option" where
  "result_node r = (case r of Inr (Ref a, st) \<Rightarrow> Some (heap st a) | _ \<Rightarrow> None)"

text \<open>
  What a call shows to its caller: the error, or the value returned and, when that is a
  node, the node's fields other than the captured argument list.
\<close>

definition call_result :: "error + val \<times> state \<Rightarrow> error + val \<times> node option" where
  "call_result r =
     (case r of
        Inl e \<Rightarrow> Inl e
      | Inr (v, st) \<Rightarrow>
          Inr (v, case v of Ref a \<Rightarrow> Some ((heap st a)\<lparr>n_args := None\<rparr>) | _ \<Rightarrow> None))"

text \<open>The lifted arguments of a call, in argument order (the spec's words).\<close>

definition lifted :: "val list \<Rightarrow> addr list" where
  "lifted args = concat (map (\<lambda>v. case v of Ref a \<Rightarrow> [a] | _ \<Rightarrow> []) args)"


text \<open>\<open>y = lift(5)\<close>, and \<open>y1 = lift(1); y2 = lift(2)\<close>.\<close>

definition one_scalar :: state where
  "one_scalar = snd (lift (Num (Fin 5)) ''y'' init_state)"

definition two_scalars :: state where
  "two_scalars =
     (let (y1, s1) = lift (Num (Fin 1)) ''y1'' init_state;
          (y2, s2) = lift (Num (Fin 2)) ''y2'' s1
      in s2)"



text \<open>
  An operation registered through \<open>newFunction\<close> whose forward formula tells a node from a
  raw value: \<open>forward: function(x) { return graph.isNode(x) ? 1 : 0; }\<close>.
\<close>

definition probe_forward :: "val list \<Rightarrow> heap \<Rightarrow> error + val" where
  "probe_forward arguments h = Inr (Num (Fin (if isNode (arg_at arguments 0) then 1 else 0)))"

definition probe_backward :: "addr \<Rightarrow> val list \<Rightarrow> heap \<Rightarrow> error + heap" where
  "probe_backward this arguments h = Inr h"

definition probe_opts :: fn_opts where
  "probe_opts =
     \<lparr>f_OutputType = NumberT, f_name = ''probe'', f_forward = probe_forward,
      f_backward = probe_backward, getParents = naryGetParents\<rparr>"

text \<open>
  \<open>a = lift(t1); b = lift(t2); c = concat(a, b)\<close> for \<open>t1 = [1]\<close> and \<open>t2 = [2, 3]\<close>; then
  \<open>c.backward()\<close> with \<open>c.dx = [10, 20, 30]\<close>.
\<close>

definition concat_example :: "error + val \<times> state" where
  "concat_example =
     (let (a, s1) = lift (Tens \<lparr>dims = [1], data = [Fin 1]\<rparr>) ''a'' init_state;
          (b, s2) = lift (Tens \<lparr>dims = [2], data = [Fin 2, Fin 3]\<rparr>) ''b'' s1
      in fn_call tensor_concat_opts [a, b] s2)"

definition concat_example_backward :: "error + heap" where
  "concat_example_backward =
     (case concat_example of
        Inl e \<Rightarrow> Inl e
      | Inr (c, st) \<Rightarrow>
          (case c of
             Ref out \<Rightarrow>
               meth st out
                 ((heap st)(out := (heap st out)
                    \<lparr>n_dx := Tens \<lparr>dims = [3], data = [Fin 10, Fin 20, Fin 30]\<rparr>\<rparr>))
           | _ \<Rightarrow> Inr (heap st)))"

text \<open>A 2 by 2 matrix, a vector of three entries and a bias of two.\<close>

definition mv_A :: tensor where
  "mv_A = \<lparr>dims = [2, 2], data = [Fin 1, Fin 2, Fin 3, Fin 4]\<rparr>"

definition mv_x :: tensor where
  "mv_x = \<lparr>dims = [3], data = [Fin 1, Fin 1, Fin 1]\<rparr>"

definition mv_b :: tensor where
  "mv_b = \<lparr>dims = [2], data = [Fin 0, Fin 0]\<rparr>"

section \<open>Evaluation and shared lemmas\<close>

lemmas eval_defs = lift_def doLift_def liftScalar_def liftTensor_def ScalarNode_def TensorNode_def
  mk_node_def init_state_def new_node_def BaseNode_def BinaryNode_def UnaryNode_def NaryNode_def
  js_times_def js_plus_def value_of_def add_to_dx_def no_backward_def Let_def
  fn_call_def naryGetParents_def nary_args_def result_node_def lifted_def

lemma result_node_new_node: "result_node (Inr (new_node n bw st)) = Some n"
  by (simp add: result_node_def new_node_def Let_def)



lemma fn_call_raw:
  "getParents fo args = [] \<Longrightarrow>
   fn_call fo args st =
     (case f_forward fo args (heap st) of Inl e \<Rightarrow> Inl e | Inr r \<Rightarrow> Inr (r, st))"
  by (auto simp: fn_call_def Let_def split: sum.splits)

lemma fn_call_forward_fails:
  "f_forward fo args (heap st) = Inl e \<Longrightarrow> fn_call fo args st = Inl e"
  by (simp add: fn_call_def)

lemma fn_call_forward_ok:
  "f_forward fo args (heap st) = Inr r \<Longrightarrow> \<exists>res. fn_call fo args st = Inr res"
  by (simp add: fn_call_def Let_def)

text \<open>The loop of \<open>naryGetParents\<close> pushes the lifted arguments last first.\<close>

lemma ngp_loop_lifted:
  "n \<le> length args \<Longrightarrow> ngp_loop args n p = p @ rev (lifted (take n args))"
proof (induction n arbitrary: p)
  case 0
  then show ?case by (simp add: lifted_def)
next
  case (Suc n)
  then have "take (Suc n) args = take n args @ [args ! n]"
    by (simp add: take_Suc_conv_app_nth)
  with Suc show ?case
    by (cases "args ! n") (auto simp: lifted_def)
qed

lemma naryGetParents_lifted: "naryGetParents args = rev (lifted (nary_args args))"
  by (simp add: naryGetParents_def Let_def ngp_loop_lifted)


lemma unary_call_node:
  "u_forward uo (n_x (heap st p)) = Inr r \<Longrightarrow>
   unary_call uo (Ref p) st =
     Inr (new_node (UnaryNode (BaseNode (u_OutputType uo)) r p (u_name uo))
            (FnNode_backward uo) st)"
  by (simp add: unary_call_def)

lemma result_node_unary:
  "u_forward uo (n_x (heap st p)) = Inr r \<Longrightarrow>
   result_node (unary_call uo (Ref p) st) =
     Some (UnaryNode (BaseNode (u_OutputType uo)) r p (u_name uo))"
  by (simp add: unary_call_node result_node_new_node)

lemma result_node_binary11:
  "b_forward bo (n_x (heap st p)) (n_x (heap st q)) = Inr r \<Longrightarrow>
   result_node (binary_call bo (Ref p, Ref q) st) =
     Some (BinaryNode (BaseNode (b_OutputType bo)) r p q (b_name bo))"
  by (simp add: binary_call_def Let_def result_node_new_node)

lemma result_node_binary10:
  "\<not> isNode y \<Longrightarrow> b_forward bo (n_x (heap st p)) y = Inr r \<Longrightarrow>
   result_node (binary_call bo (Ref p, y) st) =
     Some ((UnaryNode (BaseNode (b_OutputType bo)) r p (b_name bo))\<lparr>n_arg := Some y\<rparr>)"
  by (cases y) (simp_all add: binary_call_def Let_def result_node_new_node)

lemma result_node_binary01:
  "\<not> isNode x \<Longrightarrow> b_forward bo x (n_x (heap st q)) = Inr r \<Longrightarrow>
   result_node (binary_call bo (x, Ref q) st) =
     Some ((UnaryNode (BaseNode (b_OutputType bo)) r q (b_name bo))\<lparr>n_arg := Some x\<rparr>)"
  by (cases x) (simp_all add: binary_call_def Let_def result_node_new_node)

lemma result_node_fn:
  assumes "f_forward fo args (heap st) = Inr r" and "getParents fo args = ps" and "ps \<noteq> []"
  shows "result_node (fn_call fo args st) =
     Some ((mk_node (BaseNode (f_OutputType fo)) r (f_name fo)
             (if length ps > 2 then NaryP ps
              else if length ps = 2 then BinaryP (ps ! 0) (ps ! 1)
              else UnaryP (ps ! 0)))\<lparr>n_args := Some args\<rparr>)"
  using assms
  by (simp add: fn_call_def Let_def result_node_new_node NaryNode_def BinaryNode_def UnaryNode_def)

lemma parent_addrs_shape:
  assumes "ps \<noteq> []"
  shows "parent_addrs (if length ps > 2 then NaryP ps
                       else if length ps = 2 then BinaryP (ps ! 0) (ps ! 1)
                       else UnaryP (ps ! 0)) = ps"
proof (cases ps)
  case Nil
  with assms show ?thesis by simp
next
  case (Cons a qs)
  show ?thesis
  proof (cases qs)
    case Nil
    with Cons show ?thesis by simp
  next
    case inner: (Cons b rs)
    with Cons show ?thesis by (cases rs) auto
  qed
qed

lemma value_of_raw: "\<not> isNode v \<Longrightarrow> value_of h v = v"
  by (cases v) (auto simp: value_of_def)

lemma nary_args_single: "\<not> (\<exists>ys. args = [Arr ys]) \<Longrightarrow> nary_args args = args"
proof (cases args)
  case Nil
  then show ?thesis by (simp add: nary_args_def)
next
  case (Cons a as)
  assume n: "\<not> (\<exists>ys. args = [Arr ys])"
  show ?thesis
  proof (cases as)
    case Nil
    with Cons n show ?thesis by (cases a) (auto simp: nary_args_def)
  next
    case inner: (Cons b bs)
    with Cons show ?thesis by (cases a) (auto simp: nary_args_def)
  qed
qed

lemma nary_args_Arr: "nary_args [Arr args] = args"
  by (simp add: nary_args_def)

lemma call_result_cong:
  assumes "f_forward fo a1 (heap st) = f_forward fo a2 (heap st)"
    and "getParents fo a1 = getParents fo a2"
  shows "call_result (fn_call fo a1 st) = call_result (fn_call fo a2 st)"
  using assms
  by (auto simp: fn_call_def call_result_def new_node_def Let_def
      NaryNode_def BinaryNode_def UnaryNode_def mk_node_def split: sum.splits val.splits)












section \<open>Gradient accumulation\<close>



section \<open>Constant folding\<close>




section \<open>The parents of a constructed node\<close>

text \<open>
  C3, as amended: the parents of the node a call constructs are exactly the lifted
  arguments. The unary and binary factories keep the argument order: the parent of a unary
  node is the argument; for a binary operation \<open>parent1\<close> is the first and \<open>parent2\<close> the
  second argument when both are lifted, and the single parent is the lifted one otherwise.
  For \<open>newFunction\<close> the parents are the list its \<open>getParents\<close> returns, and
  \<open>naryGetParents\<close> returns the lifted arguments in reverse argument order.
\<close>

theorem parents_are_lifted_arguments:
  "(u_forward uo (n_x (heap st p)) = Inr ru \<longrightarrow>
      map_option n_parents (result_node (unary_call uo (Ref p) st)) = Some (UnaryP p)) \<and>
   (b_forward bo (n_x (heap st p)) (n_x (heap st q)) = Inr r11 \<longrightarrow>
      map_option n_parents (result_node (binary_call bo (Ref p, Ref q) st)) =
        Some (BinaryP p q)) \<and>
   (\<not> isNode v \<and> b_forward bo (n_x (heap st p)) v = Inr r10 \<longrightarrow>
      map_option n_parents (result_node (binary_call bo (Ref p, v) st)) = Some (UnaryP p)) \<and>
   (\<not> isNode v \<and> b_forward bo v (n_x (heap st q)) = Inr r01 \<longrightarrow>
      map_option n_parents (result_node (binary_call bo (v, Ref q) st)) = Some (UnaryP q)) \<and>
   (f_forward fo args (heap st) = Inr rf \<and> getParents fo args \<noteq> [] \<longrightarrow>
      map_option (parent_addrs \<circ> n_parents) (result_node (fn_call fo args st)) =
        Some (getParents fo args)) \<and>
   naryGetParents args = rev (lifted (nary_args args))"
  by (simp add: result_node_unary result_node_binary11 result_node_binary10 result_node_binary01
      result_node_fn [OF _ refl] parent_addrs_shape naryGetParents_lifted
      UnaryNode_def BinaryNode_def mk_node_def)

theorem parents_are_lifted_arguments_witness:
  "map_option n_parents (result_node (unary_call scalar_floor_opts (Ref 0) two_scalars)) =
     Some (UnaryP 0) \<and>
   map_option n_parents (result_node (binary_call scalar_mul_opts (Ref 0, Ref 1) two_scalars)) =
     Some (BinaryP 0 1) \<and>
   map_option n_parents
     (result_node (binary_call scalar_mul_opts (Ref 0, Num (Fin 3)) two_scalars)) =
     Some (UnaryP 0) \<and>
   map_option n_parents
     (result_node (binary_call scalar_mul_opts (Num (Fin 3), Ref 1) two_scalars)) =
     Some (UnaryP 1) \<and>
   map_option (parent_addrs \<circ> n_parents)
     (result_node (fn_call scalar_sum_opts [Ref 0, Num (Fin 7), Ref 1, Ref 1] two_scalars)) =
     Some [1, 1, 0]"
  using parents_are_lifted_arguments [of scalar_floor_opts two_scalars 0 "Num (Fin 1)"
      scalar_mul_opts 1 "Num (Fin 2)" "Num (Fin 3)" "Num (Fin 3)" "Num (Fin 6)" scalar_sum_opts
      "[Ref 0, Num (Fin 7), Ref 1, Ref 1]" "Num (Fin 12)"]
  by (simp add: two_scalars_def scalar_floor_opts_def floor_forward_def scalar_mul_opts_def
      scalar_sum_opts_def sum_forward_def eval_defs eval_nat_numeral)

text \<open>
  The claim as stated fails: \<open>scalar.sum(y1, y2)\<close> with both arguments lifted builds a binary
  node whose first parent is \<open>y2\<close> and whose second is \<open>y1\<close>.
\<close>

theorem nary_parents_counterexample:
  "lifted [Ref 0, Ref 1] = [0, 1] \<and>
   map_option (parent_addrs \<circ> n_parents)
     (result_node (fn_call scalar_sum_opts [Ref 0, Ref 1] two_scalars)) = Some [1, 0]"
  by (simp add: two_scalars_def scalar_sum_opts_def sum_forward_def eval_defs eval_nat_numeral)

section \<open>The inputs of the forward formula\<close>

text \<open>
  C4, as amended: the \<open>x\<close> of a constructed node is the forward formula's result. The unary
  and binary factories apply the formula to the unwrapped values of the arguments.
  \<open>newFunction\<close> applies it to the arguments as they were passed, nodes included, and leaves
  the unwrapping to the formula.
\<close>

theorem forward_inputs:
  "(u_forward uo (value_of (heap st) (Ref p)) = Inr ru \<longrightarrow>
      map_option n_x (result_node (unary_call uo (Ref p) st)) = Some ru) \<and>
   ((isNode x \<or> isNode y) \<and>
    b_forward bo (value_of (heap st) x) (value_of (heap st) y) = Inr rb \<longrightarrow>
      map_option n_x (result_node (binary_call bo (x, y) st)) = Some rb) \<and>
   (getParents fo args \<noteq> [] \<and> f_forward fo args (heap st) = Inr rf \<longrightarrow>
      map_option n_x (result_node (fn_call fo args st)) = Some rf)"
proof (intro conjI impI)
  assume "u_forward uo (value_of (heap st) (Ref p)) = Inr ru"
  then show "map_option n_x (result_node (unary_call uo (Ref p) st)) = Some ru"
    by (simp add: value_of_def result_node_unary UnaryNode_def mk_node_def)
next
  assume a: "(isNode x \<or> isNode y) \<and>
    b_forward bo (value_of (heap st) x) (value_of (heap st) y) = Inr rb"
  show "map_option n_x (result_node (binary_call bo (x, y) st)) = Some rb"
  proof (cases "isNode x")
    case True
    then obtain p where p: "x = Ref p" by (cases x) auto
    show ?thesis
    proof (cases "isNode y")
      case True
      then obtain q where "y = Ref q" by (cases y) auto
      with a p show ?thesis
        by (simp add: value_of_def result_node_binary11 BinaryNode_def mk_node_def)
    next
      case False
      with a p have "b_forward bo (n_x (heap st p)) y = Inr rb"
        by (simp add: value_of_raw) (simp add: value_of_def)
      from result_node_binary10 [OF False this] p show ?thesis
        by (simp add: UnaryNode_def mk_node_def)
    qed
  next
    case False
    with a obtain q where q: "y = Ref q" by (cases y) auto
    with a False have "b_forward bo x (n_x (heap st q)) = Inr rb"
      by (simp add: value_of_raw) (simp add: value_of_def)
    from result_node_binary01 [OF False this] q show ?thesis
      by (simp add: UnaryNode_def mk_node_def)
  qed
next
  assume "getParents fo args \<noteq> [] \<and> f_forward fo args (heap st) = Inr rf"
  then show "map_option n_x (result_node (fn_call fo args st)) = Some rf"
    by (simp add: result_node_fn [OF _ refl] mk_node_def)
qed

theorem forward_inputs_witness:
  "map_option n_x (result_node (unary_call scalar_floor_opts (Ref 0) one_scalar)) =
     Some (Num (Fin 5)) \<and>
   map_option n_x (result_node (binary_call scalar_mul_opts (Num (Fin 3), Ref 0) one_scalar)) =
     Some (Num (Fin 15)) \<and>
   map_option n_x (result_node (fn_call scalar_sum_opts [Ref 0, Num (Fin 7)] one_scalar)) =
     Some (Num (Fin 12))"
  using forward_inputs [of scalar_floor_opts one_scalar 0 "Num (Fin 5)" "Num (Fin 3)" "Ref 0"
      scalar_mul_opts "Num (Fin 15)" scalar_sum_opts "[Ref 0, Num (Fin 7)]" "Num (Fin 12)"]
  by (simp add: one_scalar_def scalar_floor_opts_def floor_forward_def scalar_mul_opts_def
      scalar_sum_opts_def sum_forward_def eval_defs eval_nat_numeral)

text \<open>
  The claim as stated fails for \<open>newFunction\<close>: called on the node \<open>y\<close>, the probing
  operation stores 1, the formula's result on the node itself, while the formula on the
  unwrapped value of \<open>y\<close> is 0.
\<close>

theorem forward_on_wrappers_counterexample:
  "map_option n_x (result_node (fn_call probe_opts [Ref 0] one_scalar)) = Some (Num (Fin 1)) \<and>
   f_forward probe_opts (map (value_of (heap one_scalar)) [Ref 0]) (heap one_scalar) =
     Inr (Num (Fin 0))"
  by (simp add: one_scalar_def probe_opts_def probe_forward_def arg_at_def eval_defs)

section \<open>The shape of a node built by newFunction\<close>

text \<open>
  C5: for an operation built by \<open>newFunction\<close> whose forward formula returned, the number
  \<open>n\<close> of parents that \<open>getParents\<close> returns decides alone what the call yields: the raw
  forward value and no node for 0, a unary node for 1, a binary node for 2, an n-ary node
  for more than 2.
\<close>

theorem node_shape_by_parent_count:
  assumes "f_forward fo args (heap st) = Inr out" and "getParents fo args = ps"
  shows "(length ps = 0 \<longrightarrow> fn_call fo args st = Inr (out, st)) \<and>
         (length ps = 1 \<longrightarrow>
            map_option n_parents (result_node (fn_call fo args st)) = Some (UnaryP (ps ! 0))) \<and>
         (length ps = 2 \<longrightarrow>
            map_option n_parents (result_node (fn_call fo args st)) =
              Some (BinaryP (ps ! 0) (ps ! 1))) \<and>
         (length ps > 2 \<longrightarrow>
            map_option n_parents (result_node (fn_call fo args st)) = Some (NaryP ps))"
proof (intro conjI impI)
  assume "length ps = 0"
  with assms show "fn_call fo args st = Inr (out, st)"
    by (simp add: fn_call_raw)
next
  assume n: "length ps = 1"
  then have "ps \<noteq> []" by auto
  from result_node_fn [OF assms this] n
  show "map_option n_parents (result_node (fn_call fo args st)) = Some (UnaryP (ps ! 0))"
    by (simp add: mk_node_def)
next
  assume n: "length ps = 2"
  then have "ps \<noteq> []" by auto
  from result_node_fn [OF assms this] n
  show "map_option n_parents (result_node (fn_call fo args st)) =
      Some (BinaryP (ps ! 0) (ps ! 1))"
    by (simp add: mk_node_def)
next
  assume n: "length ps > 2"
  then have "ps \<noteq> []" by auto
  from result_node_fn [OF assms this] n
  show "map_option n_parents (result_node (fn_call fo args st)) = Some (NaryP ps)"
    by (simp add: mk_node_def)
qed

theorem node_shape_by_parent_count_witness:
  "fn_call scalar_sum_opts [Num (Fin 1), Num (Fin 2), Num (Fin 4)] two_scalars =
     Inr (Num (Fin 7), two_scalars) \<and>
   map_option n_parents
     (result_node (fn_call scalar_sum_opts [Num (Fin 1), Ref 1, Num (Fin 4)] two_scalars)) =
     Some (UnaryP 1) \<and>
   map_option n_parents
     (result_node (fn_call scalar_sum_opts [Ref 0, Ref 1, Num (Fin 4)] two_scalars)) =
     Some (BinaryP 1 0) \<and>
   map_option n_parents
     (result_node (fn_call scalar_sum_opts [Ref 0, Ref 1, Ref 0] two_scalars)) =
     Some (NaryP [0, 1, 0])"
  using
    node_shape_by_parent_count [of scalar_sum_opts "[Num (Fin 1), Num (Fin 2), Num (Fin 4)]"
      two_scalars "Num (Fin 7)" "[]"]
    node_shape_by_parent_count [of scalar_sum_opts "[Num (Fin 1), Ref 1, Num (Fin 4)]"
      two_scalars "Num (Fin 7)" "[1]"]
    node_shape_by_parent_count [of scalar_sum_opts "[Ref 0, Ref 1, Num (Fin 4)]"
      two_scalars "Num (Fin 7)" "[1, 0]"]
    node_shape_by_parent_count [of scalar_sum_opts "[Ref 0, Ref 1, Ref 0]"
      two_scalars "Num (Fin 4)" "[0, 1, 0]"]
  by (simp add: two_scalars_def scalar_sum_opts_def sum_forward_def eval_defs eval_nat_numeral)

section \<open>The backward formula of tensor.concat\<close>

text \<open>
  C6: the backward formula of \<open>tensor.concat\<close> should add into each lifted parent's \<open>dx\<close>
  the slice of \<open>this.dx\<close> at the positions the parent's data took in the forward result.
  It does not: the forward formula lays the arguments out first to last, the backward
  formula walks them last to first while its offset starts at 0. For \<open>concat(a, b)\<close> with
  \<open>a = [1]\<close> and \<open>b = [2, 3]\<close> the forward value is \<open>[1, 2, 3]\<close>, so with
  \<open>this.dx = [10, 20, 30]\<close> the slices are \<open>[10]\<close> for \<open>a\<close> and \<open>[20, 30]\<close> for \<open>b\<close>; the
  code adds \<open>[30]\<close> into \<open>a.dx\<close> and \<open>[10, 20]\<close> into \<open>b.dx\<close>.
\<close>

theorem concat_backward_reversed_offsets:
  "map_option n_x (result_node concat_example) =
     Some (Tens \<lparr>dims = [3], data = [Fin 1, Fin 2, Fin 3]\<rparr>) \<and>
   map_sum id (\<lambda>h. (n_dx (h 0), n_dx (h 1))) concat_example_backward =
     Inr (Tens \<lparr>dims = [1], data = [Fin 30]\<rparr>, Tens \<lparr>dims = [2], data = [Fin 10, Fin 20]\<rparr>)"
  by (simp add: concat_example_def concat_example_backward_def tensor_concat_opts_def
      concat_forward_def concat_backward_def FnNode_args_backward_def add_to_dx_at_def
      rd_def wr_def copy_def tlength_def new_Tensor_def eval_defs eval_nat_numeral upt_rec)

section \<open>derivative on a raw value\<close>

text \<open>
  C7, as amended: \<open>derivative\<close> on a raw number, tensor or array does not fail. It is the
  property read \<open>x.dx\<close>, and returns \<open>undefined\<close>, which is neither a zero nor any other
  number; on \<open>undefined\<close> itself the read raises a \<open>TypeError\<close>.
\<close>

theorem derivative_of_raw:
  "\<not> isNode v \<Longrightarrow>
   derivative v st = (if v = Undefined then Inl TypeError else Inr Undefined)"
  by (cases v) (simp_all add: derivative_def)

theorem derivative_of_raw_witness:
  "derivative (Tens mv_b) init_state = Inr Undefined \<and>
   derivative Undefined init_state = Inl TypeError"
  using derivative_of_raw [of "Tens mv_b" init_state] derivative_of_raw [of Undefined init_state]
  by simp

text \<open>The claim as stated fails: \<open>derivative(5)\<close> returns \<open>undefined\<close> and raises nothing.\<close>

theorem derivative_of_raw_counterexample:
  "derivative (Num (Fin 5)) init_state = Inr Undefined"
  by (simp add: derivative_def)

section \<open>The width check of mvmuladd\<close>

text \<open>
  C9: for tensors \<open>A\<close>, \<open>x\<close> and \<open>b\<close>, raw or lifted, the call \<open>mvmuladd(A, x, b)\<close> fails with
  an assertion error exactly when the length of \<open>x\<close> differs from \<open>A.dims[1]\<close> (also when
  \<open>A\<close> has no second dimension); the failure comes from the forward formula, before any
  node is made. Registering \<open>mvmuladd\<close> itself succeeds.
\<close>

theorem mvmuladd_width_check:
  assumes "value_of (heap st) A = Tens At" and "value_of (heap st) x = Tens xt"
    and "value_of (heap st) b = Tens bt"
  shows "(fn_call mvmuladd_opts [A, x, b] st = Inl AssertionError) =
           (Some (tlength xt) \<noteq> dim1 At) \<and>
         (f_forward mvmuladd_opts [A, x, b] (heap st) = Inl AssertionError) =
           (Some (tlength xt) \<noteq> dim1 At) \<and>
         newFunction mvmuladd_opts = Inr (fn_call mvmuladd_opts)"
proof -
  have fw: "f_forward mvmuladd_opts [A, x, b] (heap st) =
      (if Some (tlength xt) \<noteq> dim1 At then Inl AssertionError
       else Inr (Tens (fold (mv_row At xt (tlength xt)) [0..<tlength bt] (clone bt))))"
    using assms by (simp add: mvmuladd_opts_def mvmuladd_forward_def arg_at_def Let_def)
  show ?thesis
  proof (cases "Some (tlength xt) \<noteq> dim1 At")
    case True
    with fw show ?thesis
      by (simp add: fn_call_forward_fails newFunction_def checkOutputType_def mvmuladd_opts_def)
  next
    case False
    with fw obtain res where "fn_call mvmuladd_opts [A, x, b] st = Inr res"
      using fn_call_forward_ok by fastforce
    with False fw show ?thesis
      by (simp add: newFunction_def checkOutputType_def mvmuladd_opts_def)
  qed
qed

theorem mvmuladd_width_check_witness:
  "fn_call mvmuladd_opts [Tens mv_A, Tens mv_x, Tens mv_b] init_state = Inl AssertionError"
  using mvmuladd_width_check [of init_state "Tens mv_A" mv_A "Tens mv_x" mv_x "Tens mv_b" mv_b]
  by (simp add: value_of_def mv_A_def mv_x_def tlength_def dim1_def)

section \<open>Array and variable-argument calls\<close>

text \<open>
  C10, as amended: for every list of arguments other than a list whose only entry is itself
  an array, calling \<open>scalar.sum\<close>, \<open>scalarsToTensor\<close> or \<open>tensor.concat\<close> with one array
  holding the arguments gives what the call with the arguments spread gives: the same
  error, or the same value, and for a node the same fields (forward value and parents
  among them) but for the captured argument list.
\<close>

theorem array_varargs_equivalence:
  assumes "\<not> (\<exists>ys. args = [Arr ys])"
    and "fo = scalar_sum_opts \<or> fo = scalarsToTensor_opts \<or> fo = tensor_concat_opts"
  shows "call_result (fn_call fo [Arr args] st) = call_result (fn_call fo args st)"
proof -
  have eq: "nary_args [Arr args] = nary_args args"
    using assms(1) by (simp add: nary_args_single nary_args_Arr)
  have "f_forward fo [Arr args] (heap st) = f_forward fo args (heap st)"
    using assms(2) eq
    by (auto simp: scalar_sum_opts_def scalarsToTensor_opts_def tensor_concat_opts_def
        sum_forward_def scalarsToTensor_forward_def concat_forward_def)
  moreover have "getParents fo [Arr args] = getParents fo args"
    using assms(2) eq
    by (auto simp: scalar_sum_opts_def scalarsToTensor_opts_def tensor_concat_opts_def
        naryGetParents_def)
  ultimately show ?thesis by (rule call_result_cong)
qed

theorem array_varargs_equivalence_witness:
  "call_result (fn_call scalar_sum_opts [Arr [Ref 0, Num (Fin 3)]] two_scalars) =
     call_result (fn_call scalar_sum_opts [Ref 0, Num (Fin 3)] two_scalars) \<and>
   map_option n_x (result_node (fn_call scalar_sum_opts [Arr [Ref 0, Num (Fin 3)]] two_scalars)) =
     Some (Num (Fin 4))"
  using array_varargs_equivalence [of "[Ref 0, Num (Fin 3)]" scalar_sum_opts two_scalars]
  by (simp add: two_scalars_def scalar_sum_opts_def sum_forward_def eval_defs eval_nat_numeral)

text \<open>
  The claim as stated fails at the list whose only argument is the array \<open>[y]\<close>: the call
  with the array of the arguments, \<open>scalar.sum([[y]])\<close>, has no lifted parent, the call
  with the arguments spread, \<open>scalar.sum([y])\<close>, has the parent \<open>y\<close>.
\<close>

theorem single_array_argument_counterexample:
  "getParents scalar_sum_opts [Arr [Arr [Ref 0]]] = [] \<and>
   getParents scalar_sum_opts [Arr [Ref 0]] = [0]"
  by (simp add: scalar_sum_opts_def naryGetParents_def nary_args_def)

section \<open>Registration\<close>

text \<open>
  C8: registering an operation with an output type other than Number or Tensor fails with
  an assertion error in each of the three factories, and no callable is returned; with
  Number or Tensor each factory returns its callable.
\<close>

theorem registration_checks_output_type:
  "(newUnaryFunction uo = Inl AssertionError) = (u_OutputType uo \<noteq> NumberT \<and> u_OutputType uo \<noteq> TensorT) \<and>
   (newUnaryFunction uo = Inr (unary_call uo)) = (u_OutputType uo = NumberT \<or> u_OutputType uo = TensorT) \<and>
   (newBinaryFunction bo = Inl AssertionError) = (b_OutputType bo \<noteq> NumberT \<and> b_OutputType bo \<noteq> TensorT) \<and>
   (newBinaryFunction bo = Inr (binary_call bo)) = (b_OutputType bo = NumberT \<or> b_OutputType bo = TensorT) \<and>
   (newFunction fo = Inl AssertionError) = (f_OutputType fo \<noteq> NumberT \<and> f_OutputType fo \<noteq> TensorT) \<and>
   (newFunction fo = Inr (fn_call fo)) = (f_OutputType fo = NumberT \<or> f_OutputType fo = TensorT)"
  by (auto simp: newUnaryFunction_def newBinaryFunction_def newFunction_def checkOutputType_def)

theorem registration_checks_output_type_witness:
  "newUnaryFunction (scalar_floor_opts\<lparr>u_OutputType := OtherT\<rparr>) = Inl AssertionError \<and>
   newBinaryFunction scalar_mul_opts = Inr (binary_call scalar_mul_opts) \<and>
   newFunction (scalar_sum_opts\<lparr>f_OutputType := OtherT\<rparr>) = Inl AssertionError \<and>
   newFunction tensor_concat_opts = Inr (fn_call tensor_concat_opts)"
  using
    registration_checks_output_type [of "scalar_floor_opts\<lparr>u_OutputType := OtherT\<rparr>"
      scalar_mul_opts "scalar_sum_opts\<lparr>f_OutputType := OtherT\<rparr>"]
    registration_checks_output_type [of scalar_floor_opts scalar_mul_opts tensor_concat_opts]
  by (simp add: scalar_floor_opts_def scalar_mul_opts_def scalar_sum_opts_def
      tensor_concat_opts_def)

end
